theory Spec2Isabelle
  imports Complex_Main "HOL-Library.Char_ord" "HOL-Library.List_Lexorder"
begin

section \<open>Python values and exceptions\<close>

text \<open>
  The batch records and API responses of \<^verbatim>\<open>clover.py\<close> are the Python objects that
  \<^verbatim>\<open>response.json()\<close> returns: dictionaries with string keys, lists, strings,
  integers, booleans and \<^verbatim>\<open>None\<close>. A dictionary is an association list read with
  \<open>map_of\<close>. Amounts are integer minor units in the API. The claims about amounts
  are stated under exact arithmetic, so an amount is an exact rational; of binary floating
  point the model keeps what changes the control flow, the \<^verbatim>\<open>OverflowError\<close> of a true
  division whose quotient no \<^verbatim>\<open>float\<close> can hold, and leaves out the rounding.
\<close>

datatype pyval =
    PNone
  | PBool bool
  | PInt int
  | PStr string
  | PList "pyval list"
  | PDict "(string \<times> pyval) list"

datatype exn_kind = AttributeError | TypeError | ValueError | OverflowError | OtherError

text \<open>
  An exception is either a \<^verbatim>\<open>requests.exceptions.RequestException\<close> (its message, and
  the text of \<^verbatim>\<open>e.response\<close> when the exception carries a response), or any other
  exception (its class and message). The message of an exception that the interpreter
  raises is abridged: it names neither the operand types nor the offending value.
\<close>

datatype exn =
    RequestException string "string option"
  | Raised exn_kind string

fun exn_str :: "exn \<Rightarrow> string" where
  "exn_str (RequestException msg resp) = msg"
| "exn_str (Raised k msg) = msg"

fun is_request_exception :: "exn \<Rightarrow> bool" where
  "is_request_exception (RequestException msg resp) = True"
| "is_request_exception (Raised k msg) = False"

text \<open>Sequencing of computations that may raise.\<close>

definition bind_exn :: "exn + 'a \<Rightarrow> ('a \<Rightarrow> exn + 'b) \<Rightarrow> exn + 'b" where
  "bind_exn m f = (case m of Inl e \<Rightarrow> Inl e | Inr v \<Rightarrow> f v)"

text \<open>Python truthiness, as tested by \<^verbatim>\<open>if x:\<close>.\<close>

fun truthy :: "pyval \<Rightarrow> bool" where
  "truthy PNone = False"
| "truthy (PBool b) = b"
| "truthy (PInt i) = (i \<noteq> 0)"
| "truthy (PStr s) = (s \<noteq> [])"
| "truthy (PList xs) = (xs \<noteq> [])"
| "truthy (PDict kvs) = (kvs \<noteq> [])"

text \<open>\<^verbatim>\<open>obj.get(key, default)\<close>: only a dictionary has the method.\<close>

fun py_get :: "pyval \<Rightarrow> string \<Rightarrow> pyval \<Rightarrow> exn + pyval" where
  "py_get (PDict kvs) k d = Inr (case map_of kvs k of None \<Rightarrow> d | Some v \<Rightarrow> v)"
| "py_get v k d = Inl (Raised AttributeError ''object has no attribute 'get' '')"

text \<open>
  The numeric value of an operand of \<^verbatim>\<open>/\<close> or \<^verbatim>\<open>>\<close>: integers, and booleans
  (a subclass of \<^verbatim>\<open>int\<close>); any other operand is a \<^verbatim>\<open>TypeError\<close>.
\<close>

fun py_num :: "pyval \<Rightarrow> exn + int" where
  "py_num (PInt i) = Inr i"
| "py_num (PBool b) = Inr (if b then 1 else 0)"
| "py_num v = Inl (Raised TypeError ''unsupported operand type(s)'')"

text \<open>
  The least magnitude that rounds to no finite \<^verbatim>\<open>float\<close>: the largest double is
  \<open>2^1024 - 2^971\<close>, and from half a unit above it the correctly rounded quotient of
  two integers overflows.
\<close>

definition float_overflow :: int where
  "float_overflow = 2 ^ 1024 - 2 ^ 970"

text \<open>
  \<^verbatim>\<open>x / d\<close> for a positive integer constant \<open>d\<close>: \<^verbatim>\<open>OverflowError\<close> when the
  quotient is too large for a \<^verbatim>\<open>float\<close>, the exact quotient otherwise.
\<close>

definition py_truediv :: "pyval \<Rightarrow> int \<Rightarrow> exn + rat" where
  "py_truediv x d =
     bind_exn (py_num x) (\<lambda>i.
       if d * float_overflow \<le> \<bar>i\<bar>
       then Inl (Raised OverflowError ''integer division result too large for a float'')
       else Inr (of_int i / of_int d))"

text \<open>\<^verbatim>\<open>x > 0\<close>.\<close>

definition py_gt0 :: "pyval \<Rightarrow> exn + bool" where
  "py_gt0 x = bind_exn (py_num x) (\<lambda>i. Inr (i > 0))"

section \<open>Formatting of integers\<close>

definition digit_char :: "nat \<Rightarrow> char" where
  "digit_char d =
     (if d = 0 then CHR ''0'' else if d = 1 then CHR ''1'' else if d = 2 then CHR ''2''
      else if d = 3 then CHR ''3'' else if d = 4 then CHR ''4'' else if d = 5 then CHR ''5''
      else if d = 6 then CHR ''6'' else if d = 7 then CHR ''7'' else if d = 8 then CHR ''8''
      else CHR ''9'')"

text \<open>\<^verbatim>\<open>str(n)\<close> for a natural number: its decimal digits, most significant first.\<close>

fun str_nat :: "nat \<Rightarrow> string" where
  "str_nat n = (if n < 10 then [digit_char n] else str_nat (n div 10) @ [digit_char (n mod 10)])"

declare str_nat.simps [simp del]

text \<open>\<^verbatim>\<open>f"{i}"\<close> for an integer.\<close>

definition str_int :: "int \<Rightarrow> string" where
  "str_int i = (if i < 0 then CHR ''-'' # str_nat (nat (- i)) else str_nat (nat i))"

text \<open>
  \<^verbatim>\<open>f"{i:0wd}"\<close>: the sign first, then zeros up to a total width of \<open>w\<close>.
\<close>

definition zero_pad :: "nat \<Rightarrow> int \<Rightarrow> string" where
  "zero_pad w i =
     (if i < 0
      then CHR ''-'' # replicate (w - 1 - length (str_nat (nat (- i)))) CHR ''0'' @ str_nat (nat (- i))
      else replicate (w - length (str_nat (nat i))) CHR ''0'' @ str_nat (nat i))"

section \<open>The calendar\<close>

text \<open>
  The proleptic Gregorian calendar of Python's \<^verbatim>\<open>datetime\<close> and \<^verbatim>\<open>calendar\<close>
  modules. The functions follow the pure-Python reference implementation of
  \<^verbatim>\<open>datetime\<close> (\<^verbatim>\<open>_is_leap\<close>, \<^verbatim>\<open>_days_in_month\<close>, \<^verbatim>\<open>_days_before_month\<close>,
  \<^verbatim>\<open>_ord2ymd\<close>).
\<close>

definition is_leap :: "int \<Rightarrow> bool" where
  "is_leap y = (y mod 4 = 0 \<and> (y mod 100 \<noteq> 0 \<or> y mod 400 = 0))"

definition month_length :: "bool \<Rightarrow> int \<Rightarrow> int" where
  "month_length leap m =
     (if m = 2 then (if leap then 29 else 28)
      else if m = 4 \<or> m = 6 \<or> m = 9 \<or> m = 11 then 30
      else 31)"

definition days_in_month :: "int \<Rightarrow> int \<Rightarrow> int" where
  "days_in_month y m = month_length (is_leap y) m"

text \<open>Days of a non-leap year that precede the first day of month \<open>m\<close>.\<close>

definition days_before_month_tab :: "int \<Rightarrow> int" where
  "days_before_month_tab m =
     (if m \<le> 1 then 0 else if m = 2 then 31 else if m = 3 then 59 else if m = 4 then 90
      else if m = 5 then 120 else if m = 6 then 151 else if m = 7 then 181
      else if m = 8 then 212 else if m = 9 then 243 else if m = 10 then 273
      else if m = 11 then 304 else 334)"

text \<open>
  From a day of the year (\<open>n = 0\<close> is 1 January) to month and day: the estimate
  \<^verbatim>\<open>(n + 50) >> 5\<close> is either right or one too large.
\<close>

definition month_day_of :: "bool \<Rightarrow> int \<Rightarrow> int \<times> int" where
  "month_day_of leap n =
     (let month = (n + 50) div 32;
          preceding = days_before_month_tab month + (if month > 2 \<and> leap then 1 else 0)
      in if preceding > n
         then (month - 1,
               n - (preceding - (month_length False (month - 1)
                                 + (if month - 1 = 2 \<and> leap then 1 else 0))) + 1)
         else (month, n - preceding + 1))"

text \<open>
  From a proleptic Gregorian ordinal (1 is 1 January of year 1) to year, month, day.
\<close>

definition ord2ymd :: "int \<Rightarrow> int \<times> int \<times> int" where
  "ord2ymd ordinal =
     (let n = ordinal - 1;
          n400 = n div 146097; r400 = n mod 146097;
          n100 = r400 div 36524; r100 = r400 mod 36524;
          n4 = r100 div 1461; r4 = r100 mod 1461;
          n1 = r4 div 365; r1 = r4 mod 365;
          year = n400 * 400 + 1 + n100 * 100 + n4 * 4 + n1
      in if n1 = 4 \<or> n100 = 4 then (year - 1, 12, 31)
         else let leapyear = (n1 = 3 \<and> (n4 \<noteq> 24 \<or> n100 = 3));
                  md = month_day_of leapyear r1
              in (year, fst md, snd md))"

text \<open>
  A naive \<^verbatim>\<open>datetime\<close>: calendar fields without a time zone, down to the second.
  The program reads the year and the month and prints the date; the microsecond, which it
  never reads, is left out.
\<close>

record datetime =
  dt_year :: int
  dt_month :: int
  dt_day :: int
  dt_hour :: int
  dt_minute :: int
  dt_second :: int

text \<open>
  \<^verbatim>\<open>datetime(year, month, day)\<close> checks its fields and raises \<^verbatim>\<open>ValueError\<close>
  outside \<^verbatim>\<open>MINYEAR..MAXYEAR\<close>, \<open>1..12\<close> and the month's length.
\<close>

definition mk_datetime :: "int \<Rightarrow> int \<Rightarrow> int \<Rightarrow> exn + datetime" where
  "mk_datetime y m d =
     (if y < 1 \<or> y > 9999 then Inl (Raised ValueError ''year is out of range'')
      else if m < 1 \<or> m > 12 then Inl (Raised ValueError ''month must be in 1..12'')
      else if d < 1 \<or> d > days_in_month y m then Inl (Raised ValueError ''day is out of range for month'')
      else Inr \<lparr>dt_year = y, dt_month = m, dt_day = d, dt_hour = 0, dt_minute = 0,
                dt_second = 0\<rparr>)"

text \<open>
  \<^verbatim>\<open>dt - timedelta(seconds=1)\<close>, by fields: the second before midnight of the first of
  a month is 23:59:59 of the last day of the month before; the result must not leave
  year 1 (\<^verbatim>\<open>OverflowError\<close>).
\<close>

definition minus_one_second :: "datetime \<Rightarrow> exn + datetime" where
  "minus_one_second dt =
     (if dt_second dt > 0 then Inr (dt\<lparr>dt_second := dt_second dt - 1\<rparr>)
      else if dt_minute dt > 0 then Inr (dt\<lparr>dt_minute := dt_minute dt - 1, dt_second := 59\<rparr>)
      else if dt_hour dt > 0
        then Inr (dt\<lparr>dt_hour := dt_hour dt - 1, dt_minute := 59, dt_second := 59\<rparr>)
      else if dt_day dt > 1
        then Inr (dt\<lparr>dt_day := dt_day dt - 1, dt_hour := 23, dt_minute := 59, dt_second := 59\<rparr>)
      else if dt_month dt > 1
        then Inr (dt\<lparr>dt_month := dt_month dt - 1,
                      dt_day := days_in_month (dt_year dt) (dt_month dt - 1),
                      dt_hour := 23, dt_minute := 59, dt_second := 59\<rparr>)
      else if dt_year dt > 1
        then Inr (dt\<lparr>dt_year := dt_year dt - 1, dt_month := 12, dt_day := 31,
                      dt_hour := 23, dt_minute := 59, dt_second := 59\<rparr>)
      else Inl (Raised OverflowError ''date value out of range''))"

text \<open>
  \<^verbatim>\<open>datetime.fromtimestamp(ms / 1000)\<close> for an integer number \<open>ms\<close> of milliseconds
  since the epoch. The local time zone is the parameter \<open>tz\<close>: the offset from UTC, in
  seconds, in force at a given epoch second. Ordinal 719163 is 1 January 1970.

  The division raises \<^verbatim>\<open>OverflowError\<close> as above. The conversion raises when the local
  year is outside \<open>1..9999\<close>, at the time itself and at the times that the fold
  detection probes: 24 hours earlier, and, when the offset dropped within those 24 hours,
  at the time moved back by the drop. Which exception is raised there depends on the
  platform; the model names \<^verbatim>\<open>ValueError\<close>. For a year in \<open>1..9999\<close> the fields
  down to the second do not depend on the rounding of the quotient.
\<close>

definition local_date :: "(int \<Rightarrow> int) \<Rightarrow> int \<Rightarrow> int \<times> int \<times> int" where
  "local_date tz secs = ord2ymd (719163 + (secs + tz secs) div 86400)"

definition year_in_range :: "(int \<Rightarrow> int) \<Rightarrow> int \<Rightarrow> bool" where
  "year_in_range tz secs = (1 \<le> fst (local_date tz secs) \<and> fst (local_date tz secs) \<le> 9999)"

definition fromtimestamp_ms :: "(int \<Rightarrow> int) \<Rightarrow> int \<Rightarrow> exn + datetime" where
  "fromtimestamp_ms tz ms =
     (if 1000 * float_overflow \<le> \<bar>ms\<bar>
      then Inl (Raised OverflowError ''integer division result too large for a float'')
      else
        let secs = ms div 1000;
            ymd = local_date tz secs;
            sod = (secs + tz secs) mod 86400;
            transition = tz secs - tz (secs - 86400)
        in if \<not> year_in_range tz secs \<or> \<not> year_in_range tz (secs - 86400)
              \<or> (transition < 0 \<and> \<not> year_in_range tz (secs + transition))
           then Inl (Raised ValueError ''year is out of range'')
           else Inr \<lparr>dt_year = fst ymd, dt_month = fst (snd ymd), dt_day = snd (snd ymd),
                     dt_hour = sod div 3600, dt_minute = (sod mod 3600) div 60,
                     dt_second = sod mod 60\<rparr>)"

text \<open>
  \<^verbatim>\<open>dt.strftime('%Y-%m-%d')\<close>: the year as the C library prints it, without padding,
  month and day on two digits.
\<close>

definition strftime_ymd :: "datetime \<Rightarrow> string" where
  "strftime_ymd dt =
     str_int (dt_year dt) @ ''-'' @ zero_pad 2 (dt_month dt) @ ''-'' @ zero_pad 2 (dt_day dt)"

text \<open>\<^verbatim>\<open>f"{year}-{month:02d}-{day:02d}"\<close>.\<close>

definition date_str :: "int \<Rightarrow> int \<Rightarrow> int \<Rightarrow> string" where
  "date_str y m d = str_int y @ ''-'' @ zero_pad 2 m @ ''-'' @ zero_pad 2 d"

text \<open>\<^verbatim>\<open>calendar.month_name[month]\<close> for \<open>month\<close> in \<open>1..12\<close>.\<close>

definition month_name :: "int \<Rightarrow> string" where
  "month_name m =
     (if m = 1 then ''January'' else if m = 2 then ''February'' else if m = 3 then ''March''
      else if m = 4 then ''April'' else if m = 5 then ''May'' else if m = 6 then ''June''
      else if m = 7 then ''July'' else if m = 8 then ''August''
      else if m = 9 then ''September'' else if m = 10 then ''October''
      else if m = 11 then ''November'' else if m = 12 then ''December'' else '''')"

section \<open>The per-batch summary\<close>

text \<open>The dictionary with keys \<^verbatim>\<open>date\<close>, \<^verbatim>\<open>debit\<close>, \<^verbatim>\<open>tip\<close>, \<^verbatim>\<open>total\<close>.\<close>

record summary =
  date :: string
  debit :: rat
  tip :: rat
  total :: rat

text \<open>\<^verbatim>\<open>key in d and d[key]\<close> for a dictionary \<open>d\<close>.\<close>

fun py_lookup :: "pyval \<Rightarrow> string \<Rightarrow> pyval option" where
  "py_lookup (PDict kvs) k = map_of kvs k"
| "py_lookup v k = None"

text \<open>
  \<^verbatim>\<open>CloverAPI._format_single_batch\<close>. The three amounts start at zero and are assigned
  only inside the nested tests, \<open>debit\<close> last, from the two others.
\<close>

definition format_single_batch :: "(int \<Rightarrow> int) \<Rightarrow> pyval \<Rightarrow> exn + summary" where
  "format_single_batch tz batch =
     bind_exn (py_get batch ''createdTime'' (PInt 0)) (\<lambda>created_time.
     bind_exn (if truthy created_time
               then bind_exn (py_num created_time) (\<lambda>ms.
                    bind_exn (fromtimestamp_ms tz ms) (\<lambda>dt. Inr (strftime_ymd dt)))
               else Inr ''Unknown'') (\<lambda>created_date.
     bind_exn (case py_lookup batch ''batchDetails'' of
                 None \<Rightarrow> Inr (0, 0, 0)
               | Some details \<Rightarrow>
                   if \<not> truthy details then Inr (0, 0, 0)
                   else
                     bind_exn (py_get details ''batchTotals'' (PDict [])) (\<lambda>batch_totals.
                     if \<not> truthy batch_totals then Inr (0, 0, 0)
                     else
                       bind_exn (py_get batch_totals ''sales'' (PDict [])) (\<lambda>sales.
                       bind_exn (if truthy sales
                                 then bind_exn (py_get sales ''total'' (PInt 0)) (\<lambda>t. py_truediv t 100)
                                 else Inr 0) (\<lambda>sales_amount.
                       bind_exn (py_get batch_totals ''tips'' (PDict [])) (\<lambda>tips.
                       bind_exn (if truthy tips
                                 then bind_exn (py_get tips ''count'' (PInt 0)) py_gt0
                                 else Inr False) (\<lambda>counted.
                       bind_exn (if counted
                                 then bind_exn (py_get tips ''total'' (PInt 0)) (\<lambda>t. py_truediv t 100)
                                 else Inr 0) (\<lambda>tip_amount.
                       Inr (sales_amount, tip_amount, sales_amount - tip_amount))))))))
              (\<lambda>(sales_amount, tip_amount, debit_amount).
     Inr \<lparr>date = created_date, debit = debit_amount, tip = tip_amount, total = sales_amount\<rparr>)))"

section \<open>The remote client\<close>

text \<open>
  The response object of \<^verbatim>\<open>requests\<close>: the status code and reason phrase, the final
  URL, the body as text, and what \<^verbatim>\<open>response.json()\<close> makes of the body (the
  message of the decoding error, or the decoded value).
\<close>

record http_response =
  resp_status :: int
  resp_reason :: string
  resp_url :: string
  resp_text :: string
  resp_json :: "string + pyval"

text \<open>
  What the program cannot decide is a parameter: the local time zone, what
  \<^verbatim>\<open>requests.get\<close> does on the \<open>n\<close>-th request (an exception, or a response), the
  environment variables, the attributes of the module \<^verbatim>\<open>config\<close>, when there is one,
  and the table of decimal digit values of the Unicode database for the code points from
  127 on.
\<close>

record system =
  sys_tz :: "int \<Rightarrow> int"
  sys_net :: "nat \<Rightarrow> string \<Rightarrow> exn + http_response"
  sys_environ :: "string \<Rightarrow> string option"
  sys_config :: "(string \<Rightarrow> string option) option"
  sys_decimal :: "nat \<Rightarrow> nat option"

text \<open>
  What the program does to the world: the URLs requested so far, the lines printed, and
  the files written (the last write of a name first). A file is a list of lines: text
  written as it is, or a row handed to \<^verbatim>\<open>csv.writer\<close>.
\<close>

datatype csv_line = Text string | Row "string list"

record world =
  w_sent :: "string list"
  w_stdout :: "string list"
  w_files :: "(string \<times> csv_line list) list"

definition print_line :: "string \<Rightarrow> world \<Rightarrow> world" where
  "print_line s w = w\<lparr>w_stdout := w_stdout w @ [s]\<rparr>"

definition write_file :: "string \<Rightarrow> csv_line list \<Rightarrow> world \<Rightarrow> world" where
  "write_file name content w = w\<lparr>w_files := (name, content) # w_files w\<rparr>"

record clover_api =
  access_token :: string
  merchant_id :: string
  base_url :: string

text \<open>\<^verbatim>\<open>CloverAPI.__init__\<close>: the base URL loses its trailing slashes.\<close>

definition rstrip_slash :: "string \<Rightarrow> string" where
  "rstrip_slash s = rev (dropWhile (\<lambda>c. c = CHR ''/'') (rev s))"

definition CloverAPI :: "string \<Rightarrow> string \<Rightarrow> string \<Rightarrow> clover_api" where
  "CloverAPI token merchant url =
     \<lparr>access_token = token, merchant_id = merchant, base_url = rstrip_slash url\<rparr>"

text \<open>
  \<^verbatim>\<open>response.raise_for_status()\<close>: an \<^verbatim>\<open>HTTPError\<close> that carries the response, for
  the status codes \<open>400..599\<close> and for no other.
\<close>

definition raise_for_status :: "http_response \<Rightarrow> exn + unit" where
  "raise_for_status r =
     (if 400 \<le> resp_status r \<and> resp_status r < 500
      then Inl (RequestException (str_int (resp_status r) @ '' Client Error: '' @ resp_reason r
                                  @ '' for url: '' @ resp_url r) (Some (resp_text r)))
      else if 500 \<le> resp_status r \<and> resp_status r < 600
      then Inl (RequestException (str_int (resp_status r) @ '' Server Error: '' @ resp_reason r
                                  @ '' for url: '' @ resp_url r) (Some (resp_text r)))
      else Inr ())"

text \<open>
  \<^verbatim>\<open>response.json()\<close>: the decoding error is a \<^verbatim>\<open>RequestException\<close> without a
  response (requests 2.27 and later).
\<close>

definition response_json :: "http_response \<Rightarrow> exn + pyval" where
  "response_json r = (case resp_json r of Inl msg \<Rightarrow> Inl (RequestException msg None) | Inr v \<Rightarrow> Inr v)"

text \<open>
  \<^verbatim>\<open>CloverAPI._make_request\<close>: the three calls of the \<^verbatim>\<open>try\<close> in their order; a
  \<^verbatim>\<open>RequestException\<close> is printed, with the response text when it has one, and raised
  again; any other exception passes through.
\<close>

definition make_request ::
  "system \<Rightarrow> clover_api \<Rightarrow> string \<Rightarrow> world \<Rightarrow> (exn + pyval) \<times> world" where
  "make_request sys api endpoint w =
     (let url = base_url api @ ''/v3/merchants/'' @ merchant_id api @ endpoint;
          w1 = w\<lparr>w_sent := w_sent w @ [url]\<rparr>
      in case bind_exn (sys_net sys (length (w_sent w)) url) (\<lambda>response.
              bind_exn (raise_for_status response) (\<lambda>u. response_json response)) of
           Inr v \<Rightarrow> (Inr v, w1)
         | Inl (RequestException msg resp) \<Rightarrow>
             (Inl (RequestException msg resp),
              (case resp of
                 None \<Rightarrow> print_line (''API request failed: '' @ msg) w1
               | Some body \<Rightarrow>
                   print_line (''Response content: '' @ body)
                     (print_line (''API request failed: '' @ msg) w1)))
         | Inl (Raised k msg) \<Rightarrow> (Inl (Raised k msg), w1))"

section \<open>Batch retrieval\<close>

text \<open>
  \<^verbatim>\<open>for batch in all_batches\<close>: a list gives its elements, a dictionary its keys, a
  string its characters; nothing else is iterable.
\<close>

fun py_iter :: "pyval \<Rightarrow> exn + pyval list" where
  "py_iter (PList xs) = Inr xs"
| "py_iter (PDict kvs) = Inr (map (\<lambda>kv. PStr (fst kv)) kvs)"
| "py_iter (PStr s) = Inr (map (\<lambda>c. PStr [c]) s)"
| "py_iter v = Inl (Raised TypeError ''object is not iterable'')"

text \<open>The filter loop of \<^verbatim>\<open>get_closeouts_by_month\<close>; the first exception ends it.\<close>

fun filter_batches :: "(int \<Rightarrow> int) \<Rightarrow> int \<Rightarrow> int \<Rightarrow> pyval list \<Rightarrow> exn + pyval list" where
  "filter_batches tz year month [] = Inr []"
| "filter_batches tz year month (batch # rest) =
     bind_exn (py_get batch ''createdTime'' (PInt 0)) (\<lambda>batch_timestamp.
     bind_exn (if truthy batch_timestamp
               then bind_exn (py_num batch_timestamp) (\<lambda>ms.
                    bind_exn (fromtimestamp_ms tz ms) (\<lambda>batch_date.
                    Inr (dt_year batch_date = year \<and> dt_month batch_date = month)))
               else Inr False) (\<lambda>keep.
     bind_exn (filter_batches tz year month rest) (\<lambda>filtered.
     Inr (if keep then batch # filtered else filtered))))"

text \<open>
  \<^verbatim>\<open>CloverAPI.get_closeouts_by_month\<close>. The two boundary dates are built before the
  \<^verbatim>\<open>try\<close>, so their exceptions reach the caller; everything inside the \<^verbatim>\<open>try\<close>
  that raises is printed and answered with the empty list.
\<close>

definition get_closeouts_by_month ::
  "system \<Rightarrow> clover_api \<Rightarrow> int \<Rightarrow> int \<Rightarrow> world \<Rightarrow> (exn + pyval list) \<times> world" where
  "get_closeouts_by_month sys api year month w =
     (case mk_datetime year month 1 of
        Inl e \<Rightarrow> (Inl e, w)
      | Inr start_date \<Rightarrow>
          (case bind_exn (if month = 12 then mk_datetime (year + 1) 1 1
                          else mk_datetime year (month + 1) 1) minus_one_second of
             Inl e \<Rightarrow> (Inl e, w)
           | Inr end_date \<Rightarrow>
               (let w1 = print_line (''Fetching batches/closeouts for '' @ month_name month
                                      @ '' '' @ str_int year @ ''...'') w;
                    w2 = print_line (''Date range: '' @ strftime_ymd start_date @ '' to ''
                                      @ strftime_ymd end_date) w1
                in case make_request sys api ''/batches?limit=901'' w2 of
                     (Inl e, w3) \<Rightarrow>
                       (Inr [], print_line (''Error fetching batches: '' @ exn_str e) w3)
                   | (Inr response, w3) \<Rightarrow>
                       (case bind_exn (py_get response ''elements'' (PList [])) (\<lambda>all_batches.
                             bind_exn (py_iter all_batches)
                               (filter_batches (sys_tz sys) year month)) of
                          Inl e \<Rightarrow>
                            (Inr [], print_line (''Error fetching batches: '' @ exn_str e) w3)
                        | Inr filtered_batches \<Rightarrow> (Inr filtered_batches, w3)))))"

section \<open>Aggregation\<close>

definition zero_row :: "string \<Rightarrow> summary" where
  "zero_row d = \<lparr>date = d, debit = 0, tip = 0, total = 0\<rparr>"

text \<open>
  The grouping loop of \<^verbatim>\<open>generate_monthly_csv_data\<close>: \<open>daily_data\<close> is the dictionary
  from a date string to the row that accumulates the batches of that date.
\<close>

fun group_batches ::
  "(int \<Rightarrow> int) \<Rightarrow> pyval list \<Rightarrow> (string \<Rightarrow> summary option) \<Rightarrow> exn + (string \<Rightarrow> summary option)" where
  "group_batches tz [] daily_data = Inr daily_data"
| "group_batches tz (batch # rest) daily_data =
     bind_exn (format_single_batch tz batch) (\<lambda>batch_info.
       let row = (case daily_data (date batch_info) of
                    None \<Rightarrow> zero_row (date batch_info)
                  | Some r \<Rightarrow> r)
       in group_batches tz rest
            (daily_data(date batch_info \<mapsto>
               row\<lparr>debit := debit row + debit batch_info,
                   tip := tip row + tip batch_info,
                   total := total row + total batch_info\<rparr>)))"

text \<open>
  \<^verbatim>\<open>calendar.monthrange(year, month)[1]\<close>: the number of days of the month, or
  \<^verbatim>\<open>IllegalMonthError\<close> (a \<^verbatim>\<open>ValueError\<close>).
\<close>

definition monthrange_days :: "int \<Rightarrow> int \<Rightarrow> exn + int" where
  "monthrange_days year month =
     (if month < 1 \<or> month > 12 then Inl (Raised ValueError ''bad month number; must be 1-12'')
      else Inr (days_in_month year month))"

text \<open>\<^verbatim>\<open>CloverAPI.generate_monthly_csv_data\<close>.\<close>

definition generate_monthly_csv_data ::
  "system \<Rightarrow> clover_api \<Rightarrow> int \<Rightarrow> int \<Rightarrow> world \<Rightarrow> (exn + summary list) \<times> world" where
  "generate_monthly_csv_data sys api year month w =
     (case get_closeouts_by_month sys api year month w of
        (Inl e, w1) \<Rightarrow> (Inl e, w1)
      | (Inr batches, w1) \<Rightarrow>
          (bind_exn (group_batches (sys_tz sys) batches Map.empty) (\<lambda>daily_data.
           bind_exn (monthrange_days year month) (\<lambda>num_days.
           Inr (map (\<lambda>day. case daily_data (date_str year month day) of
                              Some r \<Rightarrow> r
                            | None \<Rightarrow> zero_row (date_str year month day))
                    [1..num_days]))), w1))"

section \<open>CSV export\<close>

text \<open>
  \<^verbatim>\<open>f"{x:.2f}"\<close> in exact arithmetic: the nearest hundredth, a tie going to the even
  one, the sign of \<open>x\<close> first.
\<close>

definition round_half_even :: "rat \<Rightarrow> int" where
  "round_half_even x =
     (let f = \<lfloor>x\<rfloor>; d = x - of_int f
      in if d < 1 / 2 then f else if d > 1 / 2 then f + 1 else if even f then f else f + 1)"

definition fmt2 :: "rat \<Rightarrow> string" where
  "fmt2 x =
     (let c = round_half_even (\<bar>x\<bar> * 100)
      in (if x < 0 then ''-'' else []) @ str_nat (nat (c div 100)) @ ''.'' @ zero_pad 2 (c mod 100))"

definition csv_row :: "summary \<Rightarrow> csv_line" where
  "csv_row row = Row [date row, fmt2 (debit row), fmt2 (tip row), fmt2 (total row)]"

definition totals_row :: "string \<Rightarrow> rat \<Rightarrow> rat \<Rightarrow> rat \<Rightarrow> csv_line" where
  "totals_row label d t s = Row [label, fmt2 d, fmt2 t, fmt2 s]"

definition csv_header :: csv_line where
  "csv_header = Row [''date'', ''debit'', ''tip'', ''total'']"

definition monthly_filename :: "int \<Rightarrow> int \<Rightarrow> string" where
  "monthly_filename year month =
     ''clover_monthly_data_'' @ str_int year @ ''_'' @ zero_pad 2 month @ ''.csv''"

text \<open>\<^verbatim>\<open>CloverAPI.export_monthly_csv\<close>.\<close>

definition export_monthly_csv ::
  "system \<Rightarrow> clover_api \<Rightarrow> int \<Rightarrow> int \<Rightarrow> string option \<Rightarrow> world \<Rightarrow> (exn + string) \<times> world" where
  "export_monthly_csv sys api year month filename w =
     (let fname = (case filename of None \<Rightarrow> monthly_filename year month | Some f \<Rightarrow> f)
      in case generate_monthly_csv_data sys api year month w of
           (Inl e, w1) \<Rightarrow> (Inl e, w1)
         | (Inr monthly_data, w1) \<Rightarrow>
             (let total_debit = sum_list (map debit monthly_data);
                  total_tips = sum_list (map tip monthly_data);
                  total_sales = sum_list (map total monthly_data);
                  content =
                    [Text ''Belle Nails and Spa'',
                     Text (''Sales for the month of '' @ month_name month @ '' '' @ str_int year),
                     csv_header]
                    @ map csv_row monthly_data
                    @ [totals_row ''TOTAL'' total_debit total_tips total_sales]
              in (Inr fname, print_line (''CSV file created: '' @ fname) (write_file fname content w1))))"

text \<open>\<^verbatim>\<open>sep.join(parts)\<close>.\<close>

fun join :: "string \<Rightarrow> string list \<Rightarrow> string" where
  "join sep [] = []"
| "join sep [x] = x"
| "join sep (x # y # ys) = x @ sep @ join sep (y # ys)"

text \<open>
  The collecting loop of \<^verbatim>\<open>export_multiple_months_csv\<close>: one fetch per requested
  month, the rows appended, the three grand totals advanced by the month's sums.
\<close>

fun collect_months ::
  "system \<Rightarrow> clover_api \<Rightarrow> (int \<times> int) list \<Rightarrow> summary list \<times> rat \<times> rat \<times> rat \<Rightarrow> world
     \<Rightarrow> (exn + summary list \<times> rat \<times> rat \<times> rat) \<times> world" where
  "collect_months sys api [] acc w = (Inr acc, w)"
| "collect_months sys api ((year, month) # rest)
     (all_data, grand_total_debit, grand_total_tips, grand_total_sales) w =
     (case generate_monthly_csv_data sys api year month w of
        (Inl e, w1) \<Rightarrow> (Inl e, w1)
      | (Inr monthly_data, w1) \<Rightarrow>
          collect_months sys api rest
            (all_data @ monthly_data,
             grand_total_debit + sum_list (map debit monthly_data),
             grand_total_tips + sum_list (map tip monthly_data),
             grand_total_sales + sum_list (map total monthly_data)) w1)"

definition combined_filename :: "(int \<times> int) list \<Rightarrow> string" where
  "combined_filename year_months =
     ''clover_combined_months_''
     @ join ''_'' (map (\<lambda>(year, month). str_int year @ ''_'' @ zero_pad 2 month) year_months)
     @ ''.csv''"

text \<open>\<^verbatim>\<open>CloverAPI.export_multiple_months_csv\<close>.\<close>

definition export_multiple_months_csv ::
  "system \<Rightarrow> clover_api \<Rightarrow> (int \<times> int) list \<Rightarrow> string option \<Rightarrow> world \<Rightarrow> (exn + string) \<times> world" where
  "export_multiple_months_csv sys api year_months filename w =
     (let fname = (case filename of None \<Rightarrow> combined_filename year_months | Some f \<Rightarrow> f)
      in case collect_months sys api year_months ([], 0, 0, 0) w of
           (Inl e, w1) \<Rightarrow> (Inl e, w1)
         | (Inr (all_data, grand_total_debit, grand_total_tips, grand_total_sales), w1) \<Rightarrow>
             (let months_header =
                    join '', '' (map (\<lambda>(year, month). month_name month @ '' '' @ str_int year)
                                     year_months);
                  content =
                    [Text ''Belle Nails and Spa'',
                     Text (''Sales for the months of '' @ months_header),
                     csv_header]
                    @ map csv_row all_data
                    @ [totals_row ''GRAND TOTAL'' grand_total_debit grand_total_tips grand_total_sales]
              in (Inr fname,
                  print_line (''Multi-month CSV file created: '' @ fname)
                    (write_file fname content w1))))"

section \<open>Configuration and the command line\<close>

record credentials =
  cfg_access_token :: "string option"
  cfg_merchant_id :: "string option"
  cfg_base_url :: string

definition production_url :: string where
  "production_url = ''https://api.clover.com''"

text \<open>\<^verbatim>\<open>os.getenv(name, default)\<close> and \<^verbatim>\<open>getattr(config, name, default)\<close>.\<close>

definition lookup_default :: "(string \<Rightarrow> string option) \<Rightarrow> string \<Rightarrow> string \<Rightarrow> string" where
  "lookup_default m name d = (case m name of None \<Rightarrow> d | Some v \<Rightarrow> v)"

text \<open>\<^verbatim>\<open>load_config_from_env\<close>: an unset variable is \<^verbatim>\<open>None\<close>, except the base URL.\<close>

definition load_config_from_env :: "system \<Rightarrow> credentials" where
  "load_config_from_env sys =
     \<lparr>cfg_access_token = sys_environ sys ''CLOVER_ACCESS_TOKEN'',
      cfg_merchant_id = sys_environ sys ''CLOVER_MERCHANT_ID'',
      cfg_base_url = lookup_default (sys_environ sys) ''CLOVER_BASE_URL'' production_url\<rparr>"

text \<open>\<^verbatim>\<open>load_config_from_file\<close>: without the module, a warning and empty credentials.\<close>

definition load_config_from_file :: "system \<Rightarrow> world \<Rightarrow> credentials \<times> world" where
  "load_config_from_file sys w =
     (case sys_config sys of
        Some config \<Rightarrow>
          (\<lparr>cfg_access_token = Some (lookup_default config ''CLOVER_ACCESS_TOKEN'' []),
            cfg_merchant_id = Some (lookup_default config ''CLOVER_MERCHANT_ID'' []),
            cfg_base_url = lookup_default config ''CLOVER_BASE_URL'' production_url\<rparr>, w)
      | None \<Rightarrow>
          (\<lparr>cfg_access_token = Some [], cfg_merchant_id = Some [],
            cfg_base_url = production_url\<rparr>,
           print_line ''Warning: config.py file not found. Create one from config_template.py'' w))"

text \<open>
  The arguments as \<^verbatim>\<open>argparse\<close> hands them over. The text of \<^verbatim>\<open>--month\<close> is read
  character by character, so it is the list of its Unicode code points.
\<close>

record cli_args =
  arg_year :: int
  arg_month :: "nat list"
  arg_token :: "string option"
  arg_merchant :: "string option"
  arg_output :: "string option"
  arg_env :: bool

text \<open>\<^verbatim>\<open>not s\<close> for a string or \<^verbatim>\<open>None\<close>.\<close>

definition blank :: "string option \<Rightarrow> bool" where
  "blank s = (case s of None \<Rightarrow> True | Some v \<Rightarrow> v = [])"

definition cred_value :: "string option \<Rightarrow> string" where
  "cred_value s = (case s of None \<Rightarrow> [] | Some v \<Rightarrow> v)"

text \<open>\<^verbatim>\<open>s.split(',')\<close>; the comma is code point 44.\<close>

definition comma :: nat where
  "comma = 44"

fun split_on :: "'a \<Rightarrow> 'a list \<Rightarrow> 'a list list" where
  "split_on c [] = [[]]"
| "split_on c (x # xs) =
     (if x = c then [] # split_on c xs
      else (case split_on c xs of [] \<Rightarrow> [[x]] | p # ps \<Rightarrow> (x # p) # ps))"

text \<open>
  White space. \<^verbatim>\<open>str.strip()\<close> removes the characters of \<^verbatim>\<open>str.isspace\<close>: the
  ASCII controls \<open>9..13\<close> and \<open>28..31\<close>, the space, and the Unicode separators
  (U+0085, U+00A0, U+1680, U+2000..U+200A, U+2028, U+2029, U+202F, U+205F, U+3000).
  The integer parser skips the white space of the C locale only: \<open>9..13\<close> and the space.
\<close>

definition is_unicode_space :: "nat \<Rightarrow> bool" where
  "is_unicode_space c =
     ((9 \<le> c \<and> c \<le> 13) \<or> (28 \<le> c \<and> c \<le> 32) \<or> c = 133 \<or> c = 160 \<or> c = 5760
      \<or> (8192 \<le> c \<and> c \<le> 8202) \<or> c = 8232 \<or> c = 8233 \<or> c = 8239 \<or> c = 8287
      \<or> c = 12288)"

definition is_ascii_space :: "nat \<Rightarrow> bool" where
  "is_ascii_space c = ((9 \<le> c \<and> c \<le> 13) \<or> c = 32)"

definition strip_by :: "('a \<Rightarrow> bool) \<Rightarrow> 'a list \<Rightarrow> 'a list" where
  "strip_by space s = rev (dropWhile space (rev (dropWhile space s)))"

definition str_strip :: "nat list \<Rightarrow> nat list" where
  "str_strip s = strip_by is_unicode_space s"

text \<open>
  \<^verbatim>\<open>int(s)\<close> first rewrites the text to ASCII: a code point below 127 stays, any other
  white space becomes a space, any other decimal digit (by the table \<open>dec\<close> of the
  Unicode database) becomes the ASCII digit of its value, and anything else becomes a
  question mark, which no integer literal contains.
\<close>

definition ascii_char :: "(nat \<Rightarrow> nat option) \<Rightarrow> nat \<Rightarrow> nat" where
  "ascii_char dec c =
     (if c < 127 then c
      else if is_unicode_space c then 32
      else (case dec c of
              None \<Rightarrow> 63
            | Some d \<Rightarrow> if d \<le> 9 then 48 + d else 63))"

definition digit_val :: "nat \<Rightarrow> nat option" where
  "digit_val c = (if 48 \<le> c \<and> c \<le> 57 then Some (c - 48) else None)"

text \<open>
  The digits of an integer literal: at least one digit, single underscores (code point
  95) allowed between digits.
\<close>

fun int_body :: "nat list \<Rightarrow> nat \<Rightarrow> nat option" where
  "int_body [] acc = None"
| "int_body [c] acc = (case digit_val c of None \<Rightarrow> None | Some d \<Rightarrow> Some (10 * acc + d))"
| "int_body (c # u # us) acc =
     (case digit_val c of
        None \<Rightarrow> None
      | Some d \<Rightarrow> if u = 95 then int_body us (10 * acc + d)
                  else int_body (u # us) (10 * acc + d))"

text \<open>The default limit on the number of digits of a decimal literal.\<close>

definition max_str_digits :: nat where
  "max_str_digits = 4300"

text \<open>
  \<^verbatim>\<open>int(s)\<close>: ASCII white space around, an optional sign (\<open>+\<close> is 43, \<open>-\<close> is 45),
  the digits; every failure is a \<^verbatim>\<open>ValueError\<close>.
\<close>

definition py_int :: "(nat \<Rightarrow> nat option) \<Rightarrow> nat list \<Rightarrow> exn + int" where
  "py_int dec s =
     (let t = strip_by is_ascii_space (map (ascii_char dec) s);
          neg = (t \<noteq> [] \<and> hd t = 45);
          body = (if t \<noteq> [] \<and> (hd t = 45 \<or> hd t = 43) then tl t else t)
      in case int_body body 0 of
           None \<Rightarrow> Inl (Raised ValueError ''invalid literal for int() with base 10'')
         | Some n \<Rightarrow>
             if max_str_digits < length (filter (\<lambda>c. c \<noteq> 95) body)
             then Inl (Raised ValueError ''Exceeds the limit (4300 digits) for integer string conversion'')
             else Inr (if neg then - int n else int n))"

text \<open>A list comprehension over a function that may raise.\<close>

fun map_exn :: "('a \<Rightarrow> exn + 'b) \<Rightarrow> 'a list \<Rightarrow> exn + 'b list" where
  "map_exn f [] = Inr []"
| "map_exn f (x # xs) = bind_exn (f x) (\<lambda>y. bind_exn (map_exn f xs) (\<lambda>ys. Inr (y # ys)))"

text \<open>
  The validation loop of \<^verbatim>\<open>main\<close>: the first month outside \<open>1..12\<close> is reported.
\<close>

fun check_months :: "(int \<times> int) list \<Rightarrow> string option" where
  "check_months [] = None"
| "check_months ((year, month) # rest) =
     (if \<not> (1 \<le> month \<and> month \<le> 12)
      then Some (''Error: Month '' @ str_int month @ '' must be between 1 and 12'')
      else check_months rest)"

definition invalid_format_msg :: string where
  "invalid_format_msg =
     ''Error: Invalid month format. Use single month (e.g., 6) or comma-separated (e.g., 1,2,3)''"

text \<open>
  The first part of \<^verbatim>\<open>main\<close>, "parse and validate months": the line printed before
  \<^verbatim>\<open>main\<close> returns (\<open>Inl\<close>), or the list of (year, month) pairs.
\<close>

definition parse_months ::
  "(nat \<Rightarrow> nat option) \<Rightarrow> int \<Rightarrow> nat list \<Rightarrow> string + (int \<times> int) list" where
  "parse_months dec year month_arg =
     (if comma \<in> set month_arg
      then (case map_exn (\<lambda>m. py_int dec (str_strip m)) (split_on comma month_arg) of
              Inl e \<Rightarrow> Inl invalid_format_msg
            | Inr months \<Rightarrow>
                (case check_months (map (\<lambda>month. (year, month)) months) of
                   Some msg \<Rightarrow> Inl msg
                 | None \<Rightarrow> Inr (map (\<lambda>month. (year, month)) months)))
      else (case py_int dec month_arg of
              Inl e \<Rightarrow> Inl invalid_format_msg
            | Inr month \<Rightarrow>
                if \<not> (1 \<le> month \<and> month \<le> 12) then Inl ''Error: Month must be between 1 and 12''
                else (case check_months [(year, month)] of
                        Some msg \<Rightarrow> Inl msg
                      | None \<Rightarrow> Inr [(year, month)])))"

text \<open>
  The second part of \<^verbatim>\<open>main\<close>, "get API credentials": one source is chosen, by
  \<^verbatim>\<open>--env\<close> first, then by the presence of both \<^verbatim>\<open>--token\<close> and \<^verbatim>\<open>--merchant\<close>.
\<close>

definition resolve_credentials :: "system \<Rightarrow> cli_args \<Rightarrow> world \<Rightarrow> credentials \<times> world" where
  "resolve_credentials sys a w =
     (if arg_env a then (load_config_from_env sys, w)
      else if \<not> blank (arg_token a) \<and> \<not> blank (arg_merchant a)
        then (\<lparr>cfg_access_token = arg_token a, cfg_merchant_id = arg_merchant a,
               cfg_base_url = production_url\<rparr>, w)
      else load_config_from_file sys w)"

definition missing_credentials_lines :: "string list" where
  "missing_credentials_lines =
     [''Error: Missing required credentials.'',
      ''By default, the script tries to load from config.py file.'',
      ''Choose one of the following options:'',
      ''1. Create config.py with your credentials (recommended):'',
      ''   Copy config_template.py to config.py and fill in your credentials'',
      ''2. Use --env with environment variables:'',
      ''   CLOVER_ACCESS_TOKEN'',
      ''   CLOVER_MERCHANT_ID'',
      ''   CLOVER_BASE_URL (optional)'',
      ''3. Use --token and --merchant arguments for one-time use'']"

definition print_lines :: "string list \<Rightarrow> world \<Rightarrow> world" where
  "print_lines ls w = w\<lparr>w_stdout := w_stdout w @ ls\<rparr>"

text \<open>The loop of \<^verbatim>\<open>main\<close> that writes one report per month.\<close>

fun export_each ::
  "system \<Rightarrow> clover_api \<Rightarrow> (int \<times> int) list \<Rightarrow> string list \<Rightarrow> world
     \<Rightarrow> (exn + string list) \<times> world" where
  "export_each sys api [] individual_files w = (Inr individual_files, w)"
| "export_each sys api ((year, month) # rest) individual_files w =
     (case export_monthly_csv sys api year month (Some (monthly_filename year month)) w of
        (Inl e, w1) \<Rightarrow> (Inl e, w1)
      | (Inr csv_file, w1) \<Rightarrow>
          export_each sys api rest (individual_files @ [csv_file])
            (print_line (''  - '' @ month_name month @ '' '' @ str_int year @ '': '' @ csv_file) w1))"

text \<open>
  The body of the last \<^verbatim>\<open>try\<close> of \<^verbatim>\<open>main\<close>: one month, or several months with
  their individual reports and then the combined one.
\<close>

definition run_reports ::
  "system \<Rightarrow> clover_api \<Rightarrow> (int \<times> int) list \<Rightarrow> string option \<Rightarrow> world \<Rightarrow> (exn + unit) \<times> world" where
  "run_reports sys api year_months output w =
     (case year_months of
        [(year, month)] \<Rightarrow>
          (case export_monthly_csv sys api year month output
                  (print_line (''Generating CSV report for '' @ month_name month @ '' ''
                                @ str_int year @ ''...'') w) of
             (Inl e, w1) \<Rightarrow> (Inl e, w1)
           | (Inr csv_filename, w1) \<Rightarrow>
               (Inr (), print_line (''CSV report completed: '' @ csv_filename) w1))
      | _ \<Rightarrow>
          (let months_str =
                 join '', '' (map (\<lambda>(year, month). month_name month @ '' '' @ str_int year)
                                  year_months);
               w1 = print_lines
                      [''Generating CSV reports for multiple months: '' @ months_str @ ''...'',
                       [], ''Generating individual monthly reports:''] w
           in case export_each sys api year_months [] w1 of
                (Inl e, w2) \<Rightarrow> (Inl e, w2)
              | (Inr individual_files, w2) \<Rightarrow>
                  (case export_multiple_months_csv sys api year_months output
                          (print_lines [[], ''Generating combined report for all months...''] w2) of
                     (Inl e, w3) \<Rightarrow> (Inl e, w3)
                   | (Inr combined, w3) \<Rightarrow>
                       (Inr (),
                        print_lines
                          ([[], ''All reports completed!'',
                            ''Individual monthly reports: ''
                              @ str_int (int (length individual_files)) @ '' files'']
                           @ map (\<lambda>f. ''  - '' @ f) individual_files
                           @ [''Combined report: '' @ combined]) w3))))"

text \<open>
  \<^verbatim>\<open>main\<close>, from the parsed arguments on. The trace that
  \<^verbatim>\<open>traceback.print_exc\<close> writes to the error stream is not part of the model.
\<close>

definition main :: "system \<Rightarrow> cli_args \<Rightarrow> world \<Rightarrow> world" where
  "main sys a w =
     (case parse_months (sys_decimal sys) (arg_year a) (arg_month a) of
        Inl msg \<Rightarrow> print_line msg w
      | Inr year_months \<Rightarrow>
          (case resolve_credentials sys a w of
             (cfg, w1) \<Rightarrow>
               if blank (cfg_access_token cfg) \<or> blank (cfg_merchant_id cfg)
               then print_lines missing_credentials_lines w1
               else (case run_reports sys
                            (CloverAPI (cred_value (cfg_access_token cfg))
                               (cred_value (cfg_merchant_id cfg)) (cfg_base_url cfg))
                            year_months (arg_output a) w1 of
                       (Inl e, w2) \<Rightarrow> print_line (''Script execution failed: '' @ exn_str e) w2
                     | (Inr u, w2) \<Rightarrow> w2)))"

section \<open>The data model of the specification\<close>

text \<open>
  The batch record of the specification: \<open>createdTime\<close> in epoch milliseconds, and an
  optional \<open>batchDetails.batchTotals\<close> holding \<open>sales.total\<close>, \<open>tips.count\<close> and
  \<open>tips.total\<close> as integers. A field is read along its path; a level that is absent,
  \<^verbatim>\<open>null\<close> or not an object has no fields below it.
\<close>

fun py_path :: "pyval \<Rightarrow> string list \<Rightarrow> pyval option" where
  "py_path v [] = Some v"
| "py_path v (k # ks) = (case py_lookup v k of None \<Rightarrow> None | Some u \<Rightarrow> py_path u ks)"




text \<open>
  The shape of a batch record: each level, where present, is an object or \<^verbatim>\<open>null\<close>;
  the count, where present, is an integer; each of the two totals, where present, is an
  integer whose hundredth a \<^verbatim>\<open>float\<close> can hold.
\<close>

definition level_ok :: "pyval option \<Rightarrow> bool" where
  "level_ok v = (case v of None \<Rightarrow> True | Some PNone \<Rightarrow> True | Some (PDict kvs) \<Rightarrow> True
                 | Some u \<Rightarrow> False)"





definition is_dict :: "pyval \<Rightarrow> bool" where
  "is_dict v = (case v of PDict kvs \<Rightarrow> True | u \<Rightarrow> False)"


text \<open>
  A month that \<^verbatim>\<open>datetime\<close> can bound: the first of the month and the first of the
  next month both lie in the years \<open>1..9999\<close>.
\<close>

definition valid_month :: "int \<Rightarrow> int \<Rightarrow> bool" where
  "valid_month year month =
     (1 \<le> year \<and> year \<le> 9999 \<and> 1 \<le> month \<and> month \<le> 12 \<and> (year < 9999 \<or> month < 12))"

text \<open>
  The creation time of a record as a number, when it has one (a JSON boolean counts as
  0 or 1, as it does in Python).
\<close>

definition created_ms :: "pyval \<Rightarrow> int option" where
  "created_ms b =
     (case py_lookup b ''createdTime'' of
        None \<Rightarrow> None
      | Some ct \<Rightarrow> (case py_num ct of Inl e \<Rightarrow> None | Inr ms \<Rightarrow> Some ms))"

definition created_nonzero :: "pyval \<Rightarrow> bool" where
  "created_nonzero b = (case created_ms b of None \<Rightarrow> False | Some ms \<Rightarrow> ms \<noteq> 0)"

text \<open>
  The records that a response offers to the filter loop, when it offers any: the
  response is an object and its \<open>elements\<close>, a list by default, can be iterated.
\<close>

definition page_elements :: "pyval \<Rightarrow> exn + pyval list" where
  "page_elements response = bind_exn (py_get response ''elements'' (PList [])) py_iter"

definition response_batches :: "pyval \<Rightarrow> pyval list" where
  "response_batches response = (case page_elements response of Inl e \<Rightarrow> [] | Inr bs \<Rightarrow> bs)"

text \<open>
  A record that the filter loop can read: an object whose creation time is absent, or
  false (zero, \<^verbatim>\<open>null\<close>, empty), or a number that the local calendar can show. A page
  that the loop can read offers only such records.
\<close>

definition batch_readable :: "(int \<Rightarrow> int) \<Rightarrow> pyval \<Rightarrow> bool" where
  "batch_readable tz b =
     (is_dict b \<and>
      (case py_lookup b ''createdTime'' of
         None \<Rightarrow> True
       | Some ct \<Rightarrow>
           \<not> truthy ct \<or>
           (case created_ms b of
              None \<Rightarrow> False
            | Some ms \<Rightarrow> (case fromtimestamp_ms tz ms of Inl e \<Rightarrow> False | Inr dt \<Rightarrow> True))))"

definition page_readable :: "(int \<Rightarrow> int) \<Rightarrow> pyval \<Rightarrow> bool" where
  "page_readable tz response =
     (case page_elements response of Inl e \<Rightarrow> False | Inr bs \<Rightarrow> list_all (batch_readable tz) bs)"

text \<open>
  The daily aggregate of the specification: the sums over all batch summaries that share
  the date; all zero when there is none.
\<close>

definition daily_aggregate :: "summary list \<Rightarrow> string \<Rightarrow> summary" where
  "daily_aggregate infos d =
     \<lparr>date = d,
      debit = sum_list (map debit (filter (\<lambda>s. date s = d) infos)),
      tip = sum_list (map tip (filter (\<lambda>s. date s = d) infos)),
      total = sum_list (map total (filter (\<lambda>s. date s = d) infos))\<rparr>"

text \<open>
  The invalid \<^verbatim>\<open>--month\<close> arguments of the specification: a piece between commas that,
  once the white space around it is trimmed, is not a number, or is a number outside
  \<open>1..12\<close>.
\<close>

definition bad_month_arg :: "(nat \<Rightarrow> nat option) \<Rightarrow> nat list \<Rightarrow> bool" where
  "bad_month_arg dec s =
     list_ex (\<lambda>piece. case py_int dec (str_strip piece) of Inl e \<Rightarrow> True | Inr m \<Rightarrow> m < 1 \<or> 12 < m)
       (split_on comma s)"

definition missing_credentials :: "system \<Rightarrow> cli_args \<Rightarrow> world \<Rightarrow> bool" where
  "missing_credentials sys a w =
     (blank (cfg_access_token (fst (resolve_credentials sys a w)))
      \<or> blank (cfg_merchant_id (fst (resolve_credentials sys a w))))"

definition is_error_line :: "string \<Rightarrow> bool" where
  "is_error_line l = (take 6 l = ''Error:'')"

text \<open>
  The URL that \<^verbatim>\<open>_make_request\<close> builds, and the reply of the network to the next
  request for an endpoint.
\<close>

definition request_url :: "clover_api \<Rightarrow> string \<Rightarrow> string" where
  "request_url api endpoint = base_url api @ ''/v3/merchants/'' @ merchant_id api @ endpoint"

definition next_reply :: "system \<Rightarrow> clover_api \<Rightarrow> string \<Rightarrow> world \<Rightarrow> exn + http_response" where
  "next_reply sys api endpoint w = sys_net sys (length (w_sent w)) (request_url api endpoint)"

definition batches_endpoint :: string where
  "batches_endpoint = ''/batches?limit=901''"

text \<open>A status that \<^verbatim>\<open>raise_for_status\<close> reports: a client or a server error.\<close>

definition error_status :: "int \<Rightarrow> bool" where
  "error_status code = (400 \<le> code \<and> code < 600)"

text \<open>
  The test of the filter loop, as a predicate: the creation time is present and true
  (not zero), and its local date has the requested year and month.
\<close>

definition in_month :: "(int \<Rightarrow> int) \<Rightarrow> int \<Rightarrow> int \<Rightarrow> pyval \<Rightarrow> bool" where
  "in_month tz year month b =
     (case py_lookup b ''createdTime'' of
        None \<Rightarrow> False
      | Some ct \<Rightarrow>
          truthy ct \<and>
          (case py_num ct of
             Inl e \<Rightarrow> False
           | Inr ms \<Rightarrow>
               (case fromtimestamp_ms tz ms of
                  Inl e \<Rightarrow> False
                | Inr dt \<Rightarrow> dt_year dt = year \<and> dt_month dt = month)))"

text \<open>
  The window of the specification. Two naive \<^verbatim>\<open>datetime\<close> values compare as their
  fields do, from the year down; the boundaries are given to the second, and the creation
  time is compared to the second (year, month, day, hour, minute, second).
\<close>

definition dt_fields :: "datetime \<Rightarrow> int list" where
  "dt_fields dt = [dt_year dt, dt_month dt, dt_day dt, dt_hour dt, dt_minute dt, dt_second dt]"

definition month_window :: "int \<Rightarrow> int \<Rightarrow> exn + datetime \<times> datetime" where
  "month_window year month =
     bind_exn (mk_datetime year month 1) (\<lambda>start_date.
     bind_exn (bind_exn (if month = 12 then mk_datetime (year + 1) 1 1
                         else mk_datetime year (month + 1) 1) minus_one_second) (\<lambda>end_date.
     Inr (start_date, end_date)))"

definition created_in_window :: "(int \<Rightarrow> int) \<Rightarrow> int \<Rightarrow> int \<Rightarrow> pyval \<Rightarrow> bool" where
  "created_in_window tz year month b =
     (case (created_ms b, month_window year month) of
        (Some ms, Inr (start_date, end_date)) \<Rightarrow>
          (case fromtimestamp_ms tz ms of
             Inl e \<Rightarrow> False
           | Inr dt \<Rightarrow> dt_fields start_date \<le> dt_fields dt \<and> dt_fields dt \<le> dt_fields end_date)
      | _ \<Rightarrow> False)"

text \<open>
  What the specification lets the fetch return: nothing when the request failed or the
  page cannot be read, and otherwise the records of the page whose creation time is not
  zero and lies in the window of the month.
\<close>

definition window_batches :: "(int \<Rightarrow> int) \<Rightarrow> int \<Rightarrow> int \<Rightarrow> exn + pyval \<Rightarrow> pyval list" where
  "window_batches tz year month outcome =
     (case outcome of
        Inl e \<Rightarrow> []
      | Inr response \<Rightarrow>
          if page_readable tz response
          then filter (\<lambda>b. created_nonzero b \<and> created_in_window tz year month b)
                 (response_batches response)
          else [])"

section \<open>Sample inputs\<close>

definition utc :: "int \<Rightarrow> int" where
  "utc t = 0"

text \<open>The code points of a literal.\<close>

definition code_points :: "string \<Rightarrow> nat list" where
  "code_points s = map of_char s"

text \<open>
  An excerpt of the table of decimal digits: the Arabic-Indic digits (from U+0660) and the
  fullwidth digits (from U+FF10).
\<close>

definition sample_decimal :: "nat \<Rightarrow> nat option" where
  "sample_decimal c =
     (if 1632 \<le> c \<and> c \<le> 1641 then Some (c - 1632)
      else if 65296 \<le> c \<and> c \<le> 65305 then Some (c - 65296)
      else None)"

definition sample_batch :: pyval where
  "sample_batch =
     PDict [(''id'', PStr ''B1''), (''createdTime'', PInt 1741000000000),
            (''batchDetails'',
             PDict [(''batchTotals'',
                     PDict [(''sales'', PDict [(''count'', PInt 7), (''total'', PInt 10000)]),
                            (''tips'', PDict [(''count'', PInt 2), (''total'', PInt 1500)])])])]"

definition empty_world :: world where
  "empty_world = \<lparr>w_sent = [], w_stdout = [], w_files = []\<rparr>"

definition sample_environ :: "string \<Rightarrow> string option" where
  "sample_environ = [''CLOVER_ACCESS_TOKEN'' \<mapsto> ''env-token'', ''CLOVER_MERCHANT_ID'' \<mapsto> ''env-merchant'']"

definition sample_response :: pyval where
  "sample_response = PDict [(''elements'', PList [sample_batch, PDict [(''id'', PStr ''B2'')]])]"

text \<open>A reply with a status and a reason whose body decodes to the given value.\<close>

definition json_reply :: "int \<Rightarrow> string \<Rightarrow> pyval \<Rightarrow> http_response" where
  "json_reply code reason v =
     \<lparr>resp_status = code, resp_reason = reason,
      resp_url = ''https://api.clover.com/v3/merchants/MERCHANT/batches?limit=901'',
      resp_text = ''(json)'', resp_json = Inr v\<rparr>"

definition network_system :: "(nat \<Rightarrow> string \<Rightarrow> exn + http_response) \<Rightarrow> system" where
  "network_system net =
     \<lparr>sys_tz = utc, sys_net = net, sys_environ = sample_environ, sys_config = None,
      sys_decimal = sample_decimal\<rparr>"

definition sample_system :: system where
  "sample_system = network_system (\<lambda>n url. Inr (json_reply 200 ''OK'' sample_response))"

definition sample_args :: cli_args where
  "sample_args =
     \<lparr>arg_year = 2025, arg_month = code_points ''3'', arg_token = Some ''flag-token'',
      arg_merchant = Some ''flag-merchant'', arg_output = None, arg_env = False\<rparr>"

definition failing_system :: "exn \<Rightarrow> system" where
  "failing_system e = network_system (\<lambda>n url. Inl e)"

definition sample_api :: clover_api where
  "sample_api = CloverAPI ''token'' ''MERCHANT'' ''https://api.clover.com/''"

definition sample_failure :: exn where
  "sample_failure = RequestException ''Connection refused'' None"

definition unauthorized_reply :: http_response where
  "unauthorized_reply =
     \<lparr>resp_status = 401, resp_reason = ''Unauthorized'',
      resp_url = ''https://api.clover.com/v3/merchants/MERCHANT/batches?limit=901'',
      resp_text = ''invalid token'', resp_json = Inl ''Expecting value: line 1 column 1 (char 0)''\<rparr>"

definition page_system :: "pyval list \<Rightarrow> system" where
  "page_system bs = network_system (\<lambda>n url. Inr (json_reply 200 ''OK'' (PDict [(''elements'', PList bs)])))"

definition empty_system :: system where
  "empty_system = page_system []"

definition epoch_batch :: pyval where
  "epoch_batch = PDict [(''id'', PStr ''B0''), (''createdTime'', PInt 0)]"

definition old_batch :: pyval where
  "old_batch = PDict [(''id'', PStr ''B9''), (''createdTime'', PInt (- 86400000))]"

text \<open>The last half second of 2024 and the first instant of 2025, in UTC.\<close>

definition december_batch :: pyval where
  "december_batch = PDict [(''id'', PStr ''D1''), (''createdTime'', PInt 1735689599500)]"

definition january_batch :: pyval where
  "january_batch = PDict [(''id'', PStr ''J1''), (''createdTime'', PInt 1735689600000)]"





section \<open>Properties\<close>


text \<open>
  Claim C8, as stated: the flags \<^verbatim>\<open>--token\<close> and \<^verbatim>\<open>--merchant\<close> come first. With
  \<^verbatim>\<open>--env\<close> given as well, the credentials are those of the environment.
\<close>

theorem flags_do_not_come_first:
  "\<not> blank (arg_token (sample_args\<lparr>arg_env := True\<rparr>))
   \<and> \<not> blank (arg_merchant (sample_args\<lparr>arg_env := True\<rparr>))
   \<and> cfg_access_token (fst (resolve_credentials sample_system (sample_args\<lparr>arg_env := True\<rparr>)
                                empty_world)) = Some ''env-token''
   \<and> cfg_access_token (fst (resolve_credentials sample_system (sample_args\<lparr>arg_env := True\<rparr>)
                                empty_world)) \<noteq> arg_token (sample_args\<lparr>arg_env := True\<rparr>)"
  by (simp add: resolve_credentials_def load_config_from_env_def sample_system_def
      network_system_def sample_args_def sample_environ_def blank_def)

text \<open>
  Claim C8, amended. One source is chosen and no other is consulted: the environment
  when \<^verbatim>\<open>--env\<close> is given; otherwise the flags when \<^verbatim>\<open>--token\<close> and
  \<^verbatim>\<open>--merchant\<close> are both given and not empty; otherwise the module \<^verbatim>\<open>config\<close>.
  The base URL is the production host when the chosen source does not set it (the flags
  never do).
\<close>

theorem resolve_credentials_source:
  "fst (resolve_credentials sys a w) =
     (if arg_env a
      then \<lparr>cfg_access_token = sys_environ sys ''CLOVER_ACCESS_TOKEN'',
            cfg_merchant_id = sys_environ sys ''CLOVER_MERCHANT_ID'',
            cfg_base_url = (case sys_environ sys ''CLOVER_BASE_URL'' of
                              None \<Rightarrow> production_url | Some u \<Rightarrow> u)\<rparr>
      else if \<not> blank (arg_token a) \<and> \<not> blank (arg_merchant a)
      then \<lparr>cfg_access_token = arg_token a, cfg_merchant_id = arg_merchant a,
            cfg_base_url = production_url\<rparr>
      else (case sys_config sys of
              None \<Rightarrow> \<lparr>cfg_access_token = Some [], cfg_merchant_id = Some [],
                        cfg_base_url = production_url\<rparr>
            | Some config \<Rightarrow>
                \<lparr>cfg_access_token = Some (case config ''CLOVER_ACCESS_TOKEN'' of
                                            None \<Rightarrow> [] | Some v \<Rightarrow> v),
                 cfg_merchant_id = Some (case config ''CLOVER_MERCHANT_ID'' of
                                           None \<Rightarrow> [] | Some v \<Rightarrow> v),
                 cfg_base_url = (case config ''CLOVER_BASE_URL'' of
                                   None \<Rightarrow> production_url | Some u \<Rightarrow> u)\<rparr>))"
  by (simp add: resolve_credentials_def load_config_from_env_def load_config_from_file_def
      lookup_default_def split: option.splits)

theorem resolve_credentials_source_witness:
  "fst (resolve_credentials sample_system sample_args empty_world)
     = \<lparr>cfg_access_token = Some ''flag-token'', cfg_merchant_id = Some ''flag-merchant'',
        cfg_base_url = ''https://api.clover.com''\<rparr>
   \<and> fst (resolve_credentials sample_system (sample_args\<lparr>arg_env := True\<rparr>) empty_world)
     = \<lparr>cfg_access_token = Some ''env-token'', cfg_merchant_id = Some ''env-merchant'',
        cfg_base_url = ''https://api.clover.com''\<rparr>
   \<and> fst (resolve_credentials sample_system (sample_args\<lparr>arg_token := None\<rparr>) empty_world)
     = \<lparr>cfg_access_token = Some [], cfg_merchant_id = Some [],
        cfg_base_url = ''https://api.clover.com''\<rparr>"
  using resolve_credentials_source[of sample_system sample_args empty_world]
    resolve_credentials_source[of sample_system "sample_args\<lparr>arg_env := True\<rparr>" empty_world]
    resolve_credentials_source[of sample_system "sample_args\<lparr>arg_token := None\<rparr>" empty_world]
  by (simp add: sample_system_def network_system_def sample_args_def sample_environ_def blank_def
      production_url_def)


lemma month_day_of_range:
  assumes "0 \<le> n" and "n \<le> 364"
  shows "1 \<le> fst (month_day_of leap n) \<and> fst (month_day_of leap n) \<le> 12 \<and>
         1 \<le> snd (month_day_of leap n) \<and>
         snd (month_day_of leap n) \<le> month_length leap (fst (month_day_of leap n))"
proof -
  define m where "m = (n + 50) div 32"
  have lo: "32 * m \<le> n + 50" and hi: "n + 50 < 32 * m + 32"
    unfolding m_def by presburger+
  from assms lo hi have "1 \<le> m" "m \<le> 12" by arith+
  then have "m = 1 \<or> m = 2 \<or> m = 3 \<or> m = 4 \<or> m = 5 \<or> m = 6
    \<or> m = 7 \<or> m = 8 \<or> m = 9 \<or> m = 10 \<or> m = 11 \<or> m = 12"
    by arith
  then consider "m = 1" | "m = 2" | "m = 3" | "m = 4" | "m = 5" | "m = 6"
    | "m = 7" | "m = 8" | "m = 9" | "m = 10" | "m = 11" | "m = 12"
    by blast
  then show ?thesis
  proof cases
    case 1 with lo hi assms show ?thesis
      unfolding month_day_of_def Let_def m_def[symmetric]
      by (simp add: days_before_month_tab_def month_length_def)
  next
    case 2 with lo hi assms show ?thesis
      unfolding month_day_of_def Let_def m_def[symmetric]
      by (simp add: days_before_month_tab_def month_length_def)
  next
    case 3 with lo hi assms show ?thesis
      unfolding month_day_of_def Let_def m_def[symmetric]
      by (simp add: days_before_month_tab_def month_length_def)
  next
    case 4 with lo hi assms show ?thesis
      unfolding month_day_of_def Let_def m_def[symmetric]
      by (simp add: days_before_month_tab_def month_length_def)
  next
    case 5 with lo hi assms show ?thesis
      unfolding month_day_of_def Let_def m_def[symmetric]
      by (simp add: days_before_month_tab_def month_length_def)
  next
    case 6 with lo hi assms show ?thesis
      unfolding month_day_of_def Let_def m_def[symmetric]
      by (simp add: days_before_month_tab_def month_length_def)
  next
    case 7 with lo hi assms show ?thesis
      unfolding month_day_of_def Let_def m_def[symmetric]
      by (simp add: days_before_month_tab_def month_length_def)
  next
    case 8 with lo hi assms show ?thesis
      unfolding month_day_of_def Let_def m_def[symmetric]
      by (simp add: days_before_month_tab_def month_length_def)
  next
    case 9 with lo hi assms show ?thesis
      unfolding month_day_of_def Let_def m_def[symmetric]
      by (simp add: days_before_month_tab_def month_length_def)
  next
    case 10 with lo hi assms show ?thesis
      unfolding month_day_of_def Let_def m_def[symmetric]
      by (simp add: days_before_month_tab_def month_length_def)
  next
    case 11 with lo hi assms show ?thesis
      unfolding month_day_of_def Let_def m_def[symmetric]
      by (simp add: days_before_month_tab_def month_length_def)
  next
    case 12 with lo hi assms show ?thesis
      unfolding month_day_of_def Let_def m_def[symmetric]
      by (simp add: days_before_month_tab_def month_length_def)
  qed
qed

lemma mod_zero_iff_top:
  fixes v k :: int
  assumes "1 \<le> v" "v \<le> k"
  shows "(v mod k = 0) = (v = k)"
proof (cases "v = k")
  case True then show ?thesis by simp
next
  case False
  with assms have "v < k" "0 \<le> v" by arith+
  then have "v mod k = v" by simp
  with assms False show ?thesis by simp
qed

lemma div_bounds:
  fixes a b k :: int
  assumes "0 \<le> a" "a \<le> b" "0 < k"
  shows "0 \<le> a div k \<and> a div k \<le> b div k"
  using assms by (simp add: zdiv_mono1 pos_imp_zdiv_nonneg_iff)

lemma is_leap_decomposed:
  assumes "0 \<le> n100" "n100 \<le> 3" "0 \<le> n4" "n4 \<le> 24" "0 \<le> n1" "n1 \<le> 3"
  shows "is_leap (n400 * 400 + 1 + n100 * 100 + n4 * 4 + n1)
         = (n1 = 3 \<and> (n4 \<noteq> 24 \<or> n100 = 3))"
proof -
  let ?y = "n400 * 400 + 1 + n100 * 100 + n4 * 4 + n1"
  have "?y = (1 + n1) + 4 * (n400 * 100 + n100 * 25 + n4)" by simp
  then have m4: "?y mod 4 = (1 + n1) mod 4" by (simp only: mod_mult_self2)
  have "?y = (1 + n4 * 4 + n1) + 100 * (n400 * 4 + n100)" by simp
  then have m100: "?y mod 100 = (1 + n4 * 4 + n1) mod 100" by (simp only: mod_mult_self2)
  have "?y = (1 + n100 * 100 + n4 * 4 + n1) + 400 * n400" by simp
  then have m400: "?y mod 400 = (1 + n100 * 100 + n4 * 4 + n1) mod 400"
    by (simp only: mod_mult_self2)
  have a: "((1 + n1) mod 4 = 0) = (1 + n1 = 4)"
    using assms by (intro mod_zero_iff_top) arith+
  have b: "((1 + n4 * 4 + n1) mod 100 = 0) = (1 + n4 * 4 + n1 = 100)"
    using assms by (intro mod_zero_iff_top) arith+
  have c: "((1 + n100 * 100 + n4 * 4 + n1) mod 400 = 0) = (1 + n100 * 100 + n4 * 4 + n1 = 400)"
    using assms by (intro mod_zero_iff_top) arith+
  show ?thesis unfolding is_leap_def m4 m100 m400 a b c using assms by arith
qed

lemma ord2ymd_valid:
  assumes "ord2ymd n = (y, m, d)"
  shows "1 \<le> m \<and> m \<le> 12 \<and> 1 \<le> d \<and> d \<le> days_in_month y m"
proof -
  define r400 where "r400 = (n - 1) mod 146097"
  define n100 where "n100 = r400 div 36524"
  define r100 where "r100 = r400 mod 36524"
  define n4 where "n4 = r100 div 1461"
  define r4 where "r4 = r100 mod 1461"
  define n1 where "n1 = r4 div 365"
  define r1 where "r1 = r4 mod 365"
  define n400 where "n400 = (n - 1) div 146097"
  have b400: "0 \<le> r400" "r400 < 146097" unfolding r400_def by simp_all
  have b100: "0 \<le> n100" "n100 \<le> 4" "0 \<le> r100" "r100 < 36524"
    unfolding n100_def r100_def using div_bounds[of r400 146096 36524] b400 by simp_all
  have b4: "0 \<le> n4" "n4 \<le> 24" "0 \<le> r4" "r4 < 1461"
    unfolding n4_def r4_def using div_bounds[of r100 36523 1461] b100 by simp_all
  have b1: "0 \<le> n1" "n1 \<le> 4" "0 \<le> r1" "r1 < 365"
    unfolding n1_def r1_def using div_bounds[of r4 1460 365] b4 by simp_all
  have eq: "ord2ymd n =
      (if n1 = 4 \<or> n100 = 4 then (n400 * 400 + 1 + n100 * 100 + n4 * 4 + n1 - 1, 12, 31)
       else (n400 * 400 + 1 + n100 * 100 + n4 * 4 + n1,
             fst (month_day_of (n1 = 3 \<and> (n4 \<noteq> 24 \<or> n100 = 3)) r1),
             snd (month_day_of (n1 = 3 \<and> (n4 \<noteq> 24 \<or> n100 = 3)) r1)))"
    unfolding ord2ymd_def Let_def r400_def n100_def r100_def n4_def r4_def n1_def r1_def n400_def
    by simp
  show ?thesis
  proof (cases "n1 = 4 \<or> n100 = 4")
    case True
    with assms eq have "m = 12" "d = 31" by simp_all
    then show ?thesis by (simp add: days_in_month_def month_length_def)
  next
    case False
    with b100 b1 have s: "n100 \<le> 3" "n1 \<le> 3" by arith+
    let ?leap = "n1 = 3 \<and> (n4 \<noteq> 24 \<or> n100 = 3)"
    from False assms eq have y: "y = n400 * 400 + 1 + n100 * 100 + n4 * 4 + n1"
      and m: "m = fst (month_day_of ?leap r1)" and d: "d = snd (month_day_of ?leap r1)"
      by simp_all
    have leap: "is_leap y = ?leap" unfolding y using b100 b4 b1 s by (intro is_leap_decomposed)
    have "r1 \<le> 364" using b1 by arith
    from month_day_of_range[OF b1(3) this, of ?leap] show ?thesis
      unfolding days_in_month_def leap m d by blast
  qed
qed











lemma dflt_level: "level_ok (map_of kt k)
    \<Longrightarrow> level_ok (Some (case map_of kt k of None \<Rightarrow> PDict [] | Some v \<Rightarrow> v))"
  by (cases "map_of kt k") (simp_all add: level_ok_def)



lemma path_cons: "py_path (PDict kvs) (k # ks) = (case map_of kvs k of None \<Rightarrow> None | Some u \<Rightarrow> py_path u ks)"
  by simp








lemma in_dropWhile: "x \<in> set xs \<Longrightarrow> \<not> P x \<Longrightarrow> x \<in> set (dropWhile P xs)"
  by (induction xs) auto

lemma in_strip_by: "x \<in> set xs \<Longrightarrow> \<not> P x \<Longrightarrow> x \<in> set (strip_by P xs)"
  unfolding strip_by_def by (simp add: in_dropWhile)

text \<open>Stripping ignores white space that is put around a text.\<close>

lemma strip_by_pad:
  assumes l: "\<And>x. x \<in> set l \<Longrightarrow> P x" and r: "\<And>x. x \<in> set r \<Longrightarrow> P x"
  shows "strip_by P (l @ m @ r) = strip_by P m"
proof -
  have a: "dropWhile P (l @ m @ r) = dropWhile P (m @ r)"
    using l by (rule dropWhile_append2)
  show ?thesis
  proof (cases "\<exists>x\<in>set m. \<not> P x")
    case True
    then obtain x where x: "x \<in> set m" "\<not> P x" by blast
    then have b: "dropWhile P (m @ r) = dropWhile P m @ r" by (rule dropWhile_append1)
    have "dropWhile P (rev r @ rev (dropWhile P m)) = dropWhile P (rev (dropWhile P m))"
      using r by (intro dropWhile_append2) simp
    then show ?thesis unfolding strip_by_def a b by simp
  next
    case False
    then have m: "\<And>x. x \<in> set m \<Longrightarrow> P x" by blast
    have "dropWhile P (m @ r) = dropWhile P r" using m by (rule dropWhile_append2)
    moreover have "dropWhile P r = []" using r by simp
    moreover have "dropWhile P m = []" using m by simp
    ultimately show ?thesis unfolding strip_by_def a by (simp only: rev.simps dropWhile.simps)
  qed
qed

text \<open>A text is its stripped part with white space around.\<close>

lemma strip_by_decompose:
  "\<exists>l r. s = l @ strip_by P s @ r \<and> (\<forall>x\<in>set l. P x) \<and> (\<forall>x\<in>set r. P x)"
proof -
  define d where "d = dropWhile P s"
  have s: "s = takeWhile P s @ d" unfolding d_def by simp
  have "rev d = takeWhile P (rev d) @ dropWhile P (rev d)" by simp
  then have "rev (rev d) = rev (takeWhile P (rev d) @ dropWhile P (rev d))" by (rule arg_cong)
  then have "d = rev (dropWhile P (rev d)) @ rev (takeWhile P (rev d))"
    by (simp only: rev_rev_ident rev_append)
  then have d: "d = strip_by P s @ rev (takeWhile P (rev d))"
    unfolding strip_by_def d_def[symmetric] .
  have "s = takeWhile P s @ strip_by P s @ rev (takeWhile P (rev d))"
    using s d by simp
  moreover have "\<forall>x\<in>set (takeWhile P s). P x" by (auto dest: set_takeWhileD)
  moreover have "\<forall>x\<in>set (rev (takeWhile P (rev d))). P x" by (auto dest: set_takeWhileD)
  ultimately show ?thesis by blast
qed

text \<open>An integer literal consists of digits and underscores, after an optional sign.\<close>

lemma int_body_chars:
  "int_body body acc = Some n \<Longrightarrow> c \<in> set body \<Longrightarrow> (48 \<le> c \<and> c \<le> 57) \<or> c = 95"
proof (induction body acc arbitrary: n rule: int_body.induct)
  case (1 acc) then show ?case by simp
next
  case (2 d acc)
  then show ?case by (auto simp: digit_val_def split: if_splits)
next
  case (3 d u us acc)
  from "3.prems"(1) have dg: "48 \<le> d \<and> d \<le> 57"
    by (auto simp: digit_val_def split: if_splits option.splits)
  show ?case
  proof (cases "u = 95")
    case True
    with "3.prems"(1) dg have b: "int_body us (10 * acc + (d - 48)) = Some n"
      by (simp add: digit_val_def)
    from "3.prems"(2) consider "c = d" | "c = u" | "c \<in> set us" by auto
    then show ?thesis
    proof cases
      case 1 with dg show ?thesis by simp
    next
      case 2 with True show ?thesis by simp
    next
      case 3
      from "3.IH"(1)[OF _ True b 3] dg show ?thesis by (simp add: digit_val_def)
    qed
  next
    case False
    with "3.prems"(1) dg have b: "int_body (u # us) (10 * acc + (d - 48)) = Some n"
      by (simp add: digit_val_def)
    from "3.prems"(2) consider "c = d" | "c \<in> set (u # us)" by auto
    then show ?thesis
    proof cases
      case 1 with dg show ?thesis by simp
    next
      case 2
      from "3.IH"(2)[OF _ False b 2] dg show ?thesis by (simp add: digit_val_def)
    qed
  qed
qed

lemma py_int_chars:
  assumes "py_int dec s = Inr v" and "c \<in> set (strip_by is_ascii_space (map (ascii_char dec) s))"
  shows "(48 \<le> c \<and> c \<le> 57) \<or> c = 95 \<or> c = 43 \<or> c = 45"
proof -
  define t where "t = strip_by is_ascii_space (map (ascii_char dec) s)"
  define body where "body = (if t \<noteq> [] \<and> (hd t = 45 \<or> hd t = 43) then tl t else t)"
  from assms(1) obtain n where n: "int_body body 0 = Some n"
    unfolding py_int_def Let_def t_def[symmetric] body_def[symmetric]
    by (auto split: option.splits)
  from assms(2) have ct: "c \<in> set t" unfolding t_def .
  show ?thesis
  proof (cases "t \<noteq> [] \<and> (hd t = 45 \<or> hd t = 43)")
    case True
    then have "t = hd t # body" unfolding body_def by simp
    with ct have "c = hd t \<or> c \<in> set body" by (metis set_ConsD)
    with True int_body_chars[OF n] show ?thesis by auto
  next
    case False
    then have "body = t" unfolding body_def by auto
    with ct int_body_chars[OF n] show ?thesis by auto
  qed
qed

text \<open>
  What \<^verbatim>\<open>int\<close> accepts it accepts, with the same value, once \<^verbatim>\<open>strip\<close> has trimmed it.
\<close>

lemma unicode_space_ascii:
  "is_unicode_space c \<Longrightarrow> is_ascii_space (ascii_char dec c) \<or> (28 \<le> ascii_char dec c \<and> ascii_char dec c \<le> 31)"
  unfolding is_unicode_space_def is_ascii_space_def ascii_char_def by auto

lemma py_int_strip:
  assumes "py_int dec s = Inr v"
  shows "py_int dec (str_strip s) = Inr v"
proof -
  let ?f = "ascii_char dec"
  obtain l r where s: "s = l @ str_strip s @ r"
    and l: "\<forall>x\<in>set l. is_unicode_space x" and r: "\<forall>x\<in>set r. is_unicode_space x"
    unfolding str_strip_def using strip_by_decompose[of s is_unicode_space] by blast
  have pad: "is_ascii_space x" if "x \<in> set (map ?f l) \<union> set (map ?f r)" for x
  proof (rule ccontr)
    assume na: "\<not> is_ascii_space x"
    from that obtain c where c: "x = ?f c" "c \<in> set l \<union> set r" by auto
    with l r have "is_unicode_space c" by auto
    from unicode_space_ascii[OF this, of dec] na c have x: "28 \<le> x \<and> x \<le> 31" by simp
    from c have "x \<in> set (map ?f s)" by (subst s) auto
    from in_strip_by[of x "map ?f s" is_ascii_space, OF this na]
    have "x \<in> set (strip_by is_ascii_space (map ?f s))" .
    from py_int_chars[OF assms this] x show False by arith
  qed
  have "map ?f s = map ?f l @ map ?f (str_strip s) @ map ?f r"
    by (subst s) simp
  then have "strip_by is_ascii_space (map ?f s)
        = strip_by is_ascii_space (map ?f l @ map ?f (str_strip s) @ map ?f r)" by simp
  also have "\<dots> = strip_by is_ascii_space (map ?f (str_strip s))"
    using pad by (intro strip_by_pad) auto
  finally have "py_int dec (str_strip s) = py_int dec s" unfolding py_int_def by simp
  with assms show ?thesis by simp
qed

lemma split_on_no_sep: "c \<notin> set s \<Longrightarrow> split_on c s = [s]"
  by (induction s) auto

lemma map_exn_Inl:
  assumes "x \<in> set xs" "f x = Inl e"
  shows "\<exists>e'. map_exn f xs = Inl e'"
  using assms
proof (induction xs)
  case Nil then show ?case by simp
next
  case (Cons a xs)
  show ?case
  proof (cases "f a")
    case (Inl e0) then show ?thesis by (simp add: bind_exn_def)
  next
    case (Inr y)
    with Cons have "x \<in> set xs" by auto
    from Cons.IH[OF this Cons.prems(2)] obtain e' where "map_exn f xs = Inl e'" by blast
    with Inr show ?thesis by (simp add: bind_exn_def)
  qed
qed

lemma map_exn_Inr:
  assumes "map_exn f xs = Inr ys"
  shows "list_all2 (\<lambda>x y. f x = Inr y) xs ys"
  using assms
proof (induction xs arbitrary: ys)
  case Nil then show ?case by simp
next
  case (Cons a xs)
  then show ?case
    by (auto simp: bind_exn_def split: sum.splits)
qed

lemma check_months_bad:
  assumes "(y, m) \<in> set yms" "m < 1 \<or> 12 < m"
  shows "\<exists>msg. check_months yms = Some msg \<and> is_error_line msg"
  using assms
proof (induction yms)
  case Nil then show ?case by simp
next
  case (Cons p yms)
  obtain y' m' where p: "p = (y', m')" by (cases p)
  show ?case
  proof (cases "1 \<le> m' \<and> m' \<le> 12")
    case False
    then show ?thesis unfolding p by (simp add: is_error_line_def)
  next
    case True
    with Cons.prems p have "(y, m) \<in> set yms" by auto
    from Cons.IH[OF this Cons.prems(2)] True show ?thesis unfolding p by simp
  qed
qed

lemma check_months_error:
  "check_months yms = Some msg \<Longrightarrow> is_error_line msg"
proof (induction yms)
  case Nil then show ?case by simp
next
  case (Cons p yms)
  obtain y' m' where p: "p = (y', m')" by (cases p)
  from Cons show ?case unfolding p by (auto simp: is_error_line_def split: if_splits)
qed

lemma bad_month_arg_rejected:
  assumes "bad_month_arg dec s"
  shows "\<exists>msg. parse_months dec year s = Inl msg \<and> is_error_line msg"
proof -
  have inv: "is_error_line invalid_format_msg"
    by (simp add: is_error_line_def invalid_format_msg_def)
  let ?p = "\<lambda>m. py_int dec (str_strip m)"
  from assms obtain piece where pc: "piece \<in> set (split_on comma s)"
    and c: "case ?p piece of Inl e \<Rightarrow> True | Inr m \<Rightarrow> m < 1 \<or> 12 < m"
    unfolding bad_month_arg_def list_ex_iff by blast
  from c have bad: "(\<exists>e. ?p piece = Inl e) \<or> (\<exists>m. ?p piece = Inr m \<and> (m < 1 \<or> 12 < m))"
    by (cases "?p piece") auto
  show ?thesis
  proof (cases "comma \<in> set s")
    case True
    show ?thesis
    proof (cases "map_exn ?p (split_on comma s)")
      case (Inl e)
      with True inv show ?thesis by (simp add: parse_months_def)
    next
      case (Inr months)
      from map_exn_Inr[OF Inr] have l2: "list_all2 (\<lambda>x y. ?p x = Inr y) (split_on comma s) months" .
      from bad obtain m where m: "?p piece = Inr m" "m < 1 \<or> 12 < m"
      proof
        assume "\<exists>e. ?p piece = Inl e"
        then obtain e where "?p piece = Inl e" by blast
        from map_exn_Inl[OF pc, of ?p, OF this] Inr show ?thesis by simp
      qed blast
      from pc l2 m(1) have "m \<in> set months"
        by (auto simp: list_all2_conv_all_nth in_set_conv_nth)
      then have "(year, m) \<in> set (map (\<lambda>month. (year, month)) months)" by auto
      from check_months_bad[OF this m(2)] obtain msg where
        "check_months (map (\<lambda>month. (year, month)) months) = Some msg" "is_error_line msg" by blast
      with True Inr show ?thesis by (simp add: parse_months_def)
    qed
  next
    case False
    with pc have piece: "piece = s" by (simp add: split_on_no_sep)
    show ?thesis
    proof (cases "py_int dec s")
      case (Inl e)
      with False inv show ?thesis by (simp add: parse_months_def)
    next
      case (Inr m)
      from py_int_strip[OF Inr] bad piece have "m < 1 \<or> 12 < m" by auto
      with False Inr show ?thesis by (auto simp: parse_months_def is_error_line_def)
    qed
  qed
qed

lemma resolve_credentials_world:
  "\<exists>pre. snd (resolve_credentials sys a w) = w\<lparr>w_stdout := w_stdout w @ pre\<rparr>"
proof -
  have A: "\<exists>pre. w = w\<lparr>w_stdout := w_stdout w @ pre\<rparr>"
    by (rule exI[of _ "[]"]) simp
  have B: "\<exists>pre. print_line l w = w\<lparr>w_stdout := w_stdout w @ pre\<rparr>" for l
    by (rule exI[of _ "[l]"]) (simp add: print_line_def)
  show ?thesis
    unfolding resolve_credentials_def load_config_from_file_def
    by (simp add: A B split: option.splits)
qed

text \<open>
  Claim C7. When a piece of the \<^verbatim>\<open>--month\<close> argument, trimmed of white space, is not
  a number or is a number outside \<open>1..12\<close>, and when the credentials are missing,
  \<^verbatim>\<open>main\<close> prints an error line and returns with no request sent and no file written.
\<close>

theorem main_aborts_before_io:
  assumes "bad_month_arg (sys_decimal sys) (arg_month a) \<or> missing_credentials sys a w"
  shows "w_sent (main sys a w) = w_sent w \<and> w_files (main sys a w) = w_files w
         \<and> (\<exists>lines. w_stdout (main sys a w) = w_stdout w @ lines \<and> list_ex is_error_line lines)"
proof (cases "parse_months (sys_decimal sys) (arg_year a) (arg_month a)")
  case (Inl msg)
  have "is_error_line msg"
  proof (cases "bad_month_arg (sys_decimal sys) (arg_month a)")
    case True
    from bad_month_arg_rejected[OF this, of "arg_year a"] Inl show ?thesis by simp
  next
    case False
    from Inl show ?thesis
      by (auto simp: parse_months_def is_error_line_def invalid_format_msg_def
          split: if_splits sum.splits option.splits dest: check_months_error)
  qed
  with Inl show ?thesis by (simp add: main_def print_line_def)
next
  case (Inr yms)
  with bad_month_arg_rejected[of "sys_decimal sys" "arg_month a" "arg_year a"] assms
  have mc: "missing_credentials sys a w" by auto
  obtain cfg w1 where r: "resolve_credentials sys a w = (cfg, w1)" by (cases "resolve_credentials sys a w")
  from resolve_credentials_world[of sys a w] r obtain pre where
    w1: "w1 = w\<lparr>w_stdout := w_stdout w @ pre\<rparr>" by auto
  from mc r have b: "blank (cfg_access_token cfg) \<or> blank (cfg_merchant_id cfg)"
    by (simp add: missing_credentials_def)
  have "list_ex is_error_line (pre @ missing_credentials_lines)"
    by (simp add: missing_credentials_lines_def is_error_line_def)
  with Inr r b w1 show ?thesis
    by (auto simp: main_def print_lines_def simp del: list_ex_append)
qed

text \<open>
  \<^verbatim>\<open>int\<close> on sample texts: \<^verbatim>\<open>"13"\<close>, \<^verbatim>\<open>" +1_2 "\<close>, a no-break space before
  \<^verbatim>\<open>"3"\<close>, the Arabic-Indic digit three; and the texts it rejects: the control character
  U+001C before \<^verbatim>\<open>"3"\<close> (which \<^verbatim>\<open>strip\<close> removes), \<^verbatim>\<open>"1__2"\<close>, \<^verbatim>\<open>"abc"\<close>,
  the empty text.
\<close>

lemma py_int_samples:
  "py_int sample_decimal (code_points ''13'') = Inr 13"
  "py_int sample_decimal (code_points '' +1_2 '') = Inr 12"
  "py_int sample_decimal [160, 51] = Inr 3"
  "py_int sample_decimal [1635] = Inr 3"
  "py_int sample_decimal [28, 51] = Inl (Raised ValueError ''invalid literal for int() with base 10'')"
  "py_int sample_decimal (str_strip [28, 51]) = Inr 3"
  "py_int sample_decimal (code_points ''1__2'') = Inl (Raised ValueError ''invalid literal for int() with base 10'')"
  "py_int sample_decimal (code_points ''abc'') = Inl (Raised ValueError ''invalid literal for int() with base 10'')"
  "py_int sample_decimal [] = Inl (Raised ValueError ''invalid literal for int() with base 10'')"
  by (simp_all add: code_points_def str_strip_def py_int_def strip_by_def is_unicode_space_def
      is_ascii_space_def ascii_char_def digit_val_def max_str_digits_def sample_decimal_def Let_def)

theorem main_aborts_before_io_witness:
  "bad_month_arg sample_decimal (code_points ''13'')
   \<and> bad_month_arg sample_decimal (code_points ''abc'')
   \<and> bad_month_arg sample_decimal (code_points ''1,13'')
   \<and> missing_credentials sample_system (sample_args\<lparr>arg_token := None\<rparr>) empty_world
   \<and> w_sent (main sample_system (sample_args\<lparr>arg_month := code_points ''13''\<rparr>) empty_world) = []
   \<and> w_files (main sample_system (sample_args\<lparr>arg_month := code_points ''13''\<rparr>) empty_world) = []
   \<and> w_stdout (main sample_system (sample_args\<lparr>arg_month := code_points ''13''\<rparr>) empty_world)
       = [''Error: Month must be between 1 and 12'']
   \<and> w_sent (main sample_system (sample_args\<lparr>arg_month := code_points ''abc''\<rparr>) empty_world) = []
   \<and> w_files (main sample_system (sample_args\<lparr>arg_month := code_points ''abc''\<rparr>) empty_world) = []
   \<and> w_sent (main sample_system (sample_args\<lparr>arg_month := code_points ''1,13''\<rparr>) empty_world) = []
   \<and> w_files (main sample_system (sample_args\<lparr>arg_month := code_points ''1,13''\<rparr>) empty_world) = []
   \<and> w_sent (main sample_system (sample_args\<lparr>arg_token := None\<rparr>) empty_world) = []
   \<and> w_files (main sample_system (sample_args\<lparr>arg_token := None\<rparr>) empty_world) = []"
proof -
  have d: "sys_decimal sample_system = sample_decimal"
    by (simp add: sample_system_def network_system_def)
  note ev = bad_month_arg_def code_points_def comma_def str_strip_def py_int_def strip_by_def
    is_unicode_space_def is_ascii_space_def ascii_char_def digit_val_def max_str_digits_def Let_def
  have b1: "bad_month_arg sample_decimal (code_points ''13'')" by (simp add: ev)
  have b2: "bad_month_arg sample_decimal (code_points ''abc'')" by (simp add: ev)
  have b3: "bad_month_arg sample_decimal (code_points ''1,13'')" by (simp add: ev)
  have m: "missing_credentials sample_system (sample_args\<lparr>arg_token := None\<rparr>) empty_world"
    by (simp add: missing_credentials_def resolve_credentials_def load_config_from_file_def
        sample_system_def network_system_def sample_args_def blank_def)
  have o: "w_stdout (main sample_system (sample_args\<lparr>arg_month := code_points ''13''\<rparr>) empty_world)
       = [''Error: Month must be between 1 and 12'']"
    by (simp add: main_def parse_months_def sample_args_def ev print_line_def empty_world_def)
  from main_aborts_before_io[of sample_system "sample_args\<lparr>arg_month := code_points ''13''\<rparr>" empty_world]
    main_aborts_before_io[of sample_system "sample_args\<lparr>arg_month := code_points ''abc''\<rparr>" empty_world]
    main_aborts_before_io[of sample_system "sample_args\<lparr>arg_month := code_points ''1,13''\<rparr>" empty_world]
    main_aborts_before_io[of sample_system "sample_args\<lparr>arg_token := None\<rparr>" empty_world]
    b1 b2 b3 m d
  have "w_sent (main sample_system (sample_args\<lparr>arg_month := code_points ''13''\<rparr>) empty_world) = []"
   "w_files (main sample_system (sample_args\<lparr>arg_month := code_points ''13''\<rparr>) empty_world) = []"
   "w_sent (main sample_system (sample_args\<lparr>arg_month := code_points ''abc''\<rparr>) empty_world) = []"
   "w_files (main sample_system (sample_args\<lparr>arg_month := code_points ''abc''\<rparr>) empty_world) = []"
   "w_sent (main sample_system (sample_args\<lparr>arg_month := code_points ''1,13''\<rparr>) empty_world) = []"
   "w_files (main sample_system (sample_args\<lparr>arg_month := code_points ''1,13''\<rparr>) empty_world) = []"
   "w_sent (main sample_system (sample_args\<lparr>arg_token := None\<rparr>) empty_world) = []"
   "w_files (main sample_system (sample_args\<lparr>arg_token := None\<rparr>) empty_world) = []"
    by (simp_all add: empty_world_def sample_args_def)
  with b1 b2 b3 m o show ?thesis by blast
qed

end
